theory Spec2Isabelle
  imports Complex_Main
begin

section \<open>JavaScript values of the pixel pipeline\<close>

text \<open>
  The channel values that flow through \<^verbatim>\<open>src/index.js\<close> are JavaScript numbers, and
  \<^verbatim>\<open>undefined\<close> wherever an array is read outside its range. A finite number is
  modelled as a real and the model has a single zero. The two infinities and NaN are kept,
  since division by zero and arithmetic on \<^verbatim>\<open>undefined\<close> produce them without any
  exception being raised. The operations of this section are exact; the engine rounds the
  result of every operation to IEEE-754 binary64, and the rounded operations follow in
  their own section below. A statement about exact arithmetic says so.
  The numbers of an effect configuration (contrast, brightness, saturation, the screen
  colour) are finite and modelled as reals.
\<close>

datatype jsval = Num real | PInf | NInf | NaN | Undefined

text \<open>The infinity (or NaN) that carries the sign of a finite factor.\<close>

definition infOfSign :: "real \<Rightarrow> jsval" where
  "infOfSign s = (if s = 0 then NaN else if 0 < s then PInf else NInf)"

fun jneg :: "jsval \<Rightarrow> jsval" where
  "jneg (Num a) = Num (- a)"
| "jneg PInf = NInf"
| "jneg NInf = PInf"
| "jneg NaN = NaN"
| "jneg Undefined = NaN"

text \<open>\<^verbatim>\<open>a + b\<close> on numbers; \<^verbatim>\<open>undefined\<close> converts to NaN.\<close>

fun jadd :: "jsval \<Rightarrow> jsval \<Rightarrow> jsval" where
  "jadd (Num a) (Num b) = Num (a + b)"
| "jadd NaN _ = NaN"
| "jadd _ NaN = NaN"
| "jadd Undefined _ = NaN"
| "jadd _ Undefined = NaN"
| "jadd PInf NInf = NaN"
| "jadd NInf PInf = NaN"
| "jadd PInf _ = PInf"
| "jadd _ PInf = PInf"
| "jadd NInf _ = NInf"
| "jadd _ NInf = NInf"

definition jsub :: "jsval \<Rightarrow> jsval \<Rightarrow> jsval" where
  "jsub a b = jadd a (jneg b)"

fun jmul :: "jsval \<Rightarrow> jsval \<Rightarrow> jsval" where
  "jmul (Num a) (Num b) = Num (a * b)"
| "jmul NaN _ = NaN"
| "jmul _ NaN = NaN"
| "jmul Undefined _ = NaN"
| "jmul _ Undefined = NaN"
| "jmul PInf (Num b) = infOfSign b"
| "jmul (Num a) PInf = infOfSign a"
| "jmul NInf (Num b) = infOfSign (- b)"
| "jmul (Num a) NInf = infOfSign (- a)"
| "jmul PInf PInf = PInf"
| "jmul NInf NInf = PInf"
| "jmul PInf NInf = NInf"
| "jmul NInf PInf = NInf"

text \<open>
  \<^verbatim>\<open>a / b\<close>. Every divisor of the program that can be zero is the difference
  \<^verbatim>\<open>259 - f * 256\<close> scaled by 255, a positive zero, so a finite dividend over zero
  takes the dividend's sign.
\<close>

fun jdiv :: "jsval \<Rightarrow> jsval \<Rightarrow> jsval" where
  "jdiv (Num a) (Num b) = (if b = 0 then infOfSign a else Num (a / b))"
| "jdiv NaN _ = NaN"
| "jdiv _ NaN = NaN"
| "jdiv Undefined _ = NaN"
| "jdiv _ Undefined = NaN"
| "jdiv PInf (Num b) = (if 0 \<le> b then PInf else NInf)"
| "jdiv NInf (Num b) = (if 0 \<le> b then NInf else PInf)"
| "jdiv (Num a) PInf = Num 0"
| "jdiv (Num a) NInf = Num 0"
| "jdiv PInf PInf = NaN"
| "jdiv PInf NInf = NaN"
| "jdiv NInf PInf = NaN"
| "jdiv NInf NInf = NaN"

text \<open>
  \<^verbatim>\<open>arr[v]\<close> on an array: the element when \<open>v\<close> is a whole number inside the
  range, \<^verbatim>\<open>undefined\<close> for every other key.
\<close>

definition jsIndex :: "jsval list \<Rightarrow> jsval \<Rightarrow> jsval" where
  "jsIndex arr v =
     (case v of
        Num x \<Rightarrow>
          if 0 \<le> x \<and> x = of_int \<lfloor>x\<rfloor> \<and> nat \<lfloor>x\<rfloor> < length arr
          then arr ! nat \<lfloor>x\<rfloor> else Undefined
      | _ \<Rightarrow> Undefined)"

section \<open>Effect configuration\<close>

record RGBAColor =
  color_r :: real
  color_g :: real
  color_b :: real
  color_a :: real

record Curve =
  curve_r :: "jsval list"
  curve_g :: "jsval list"
  curve_b :: "jsval list"

record Effect =
  curves :: "Curve option"
  screen :: "RGBAColor option"
  saturation :: real
  vignette :: real
  lighten :: real
  viewfinder :: "string option"
  sepia :: bool
  brightness :: real
  contrast :: real

text \<open>
  \<^verbatim>\<open>$Shape<Effect>\<close>: every key may be absent. \<open>None\<close> is an absent key;
  \<^verbatim>\<open>false\<close> for curves, screen and viewfinder is \<open>Some None\<close>.
\<close>

record PartialEffect =
  p_curves :: "Curve option option"
  p_screen :: "RGBAColor option option"
  p_saturation :: "real option"
  p_vignette :: "real option"
  p_lighten :: "real option"
  p_viewfinder :: "string option option"
  p_sepia :: "bool option"
  p_brightness :: "real option"
  p_contrast :: "real option"

definition defaultEffect :: Effect where
  "defaultEffect =
     \<lparr> curves = None, screen = None, saturation = 1, vignette = 0, lighten = 0,
       viewfinder = None, sepia = False, brightness = 0, contrast = 0 \<rparr>"

definition noOverrides :: PartialEffect where
  "noOverrides =
     \<lparr> p_curves = None, p_screen = None, p_saturation = None, p_vignette = None,
       p_lighten = None, p_viewfinder = None, p_sepia = None, p_brightness = None,
       p_contrast = None \<rparr>"

text \<open>\<^verbatim>\<open>{...defaultEffect, ...partialEffect}\<close>: a present key replaces the default.\<close>

definition spread :: "'a \<Rightarrow> 'a option \<Rightarrow> 'a" where
  "spread d p = (case p of None \<Rightarrow> d | Some v \<Rightarrow> v)"

definition mergeEffect :: "PartialEffect \<Rightarrow> Effect" where
  "mergeEffect p =
     \<lparr> curves = spread (curves defaultEffect) (p_curves p),
       screen = spread (screen defaultEffect) (p_screen p),
       saturation = spread (saturation defaultEffect) (p_saturation p),
       vignette = spread (vignette defaultEffect) (p_vignette p),
       lighten = spread (lighten defaultEffect) (p_lighten p),
       viewfinder = spread (viewfinder defaultEffect) (p_viewfinder p),
       sepia = spread (sepia defaultEffect) (p_sepia p),
       brightness = spread (brightness defaultEffect) (p_brightness p),
       contrast = spread (contrast defaultEffect) (p_contrast p) \<rparr>"

section \<open>The stage functions and the LUT builder\<close>

text \<open>
  The stage functions in exact arithmetic. Their counterparts with every operation
  rounded to binary64 are in the section on binary64 arithmetic.
\<close>

definition compose :: "('b \<Rightarrow> 'c) \<Rightarrow> ('a \<Rightarrow> 'b) \<Rightarrow> 'a \<Rightarrow> 'c" where
  "compose f g = (\<lambda>x. f (g x))"

definition idFn :: "jsval \<Rightarrow> jsval" where
  "idFn c = c"

definition curvesFn :: "jsval list \<Rightarrow> jsval \<Rightarrow> jsval" where
  "curvesFn cs c = jsIndex cs c"

definition contrastFn :: "real \<Rightarrow> jsval \<Rightarrow> jsval" where
  "contrastFn f c =
     jadd (jmul (jdiv (Num (259 * (f * 256 + 255))) (Num (255 * (259 - f * 256))))
                (jsub c (Num 128)))
          (Num 128)"

definition brightnessFn :: "real \<Rightarrow> jsval \<Rightarrow> jsval" where
  "brightnessFn f c = jadd c (Num (f * 256))"

definition screenFn :: "real \<Rightarrow> real \<Rightarrow> jsval \<Rightarrow> jsval" where
  "screenFn sa sc c =
     jsub (Num 255) (jdiv (jmul (jsub (Num 255) c) (Num (255 - sc * sa))) (Num 255))"

text \<open>\<^verbatim>\<open>new Array(256).fill(1).map((_, idx) => idx)\<close>\<close>

definition id_arr :: "jsval list" where
  "id_arr = map (\<lambda>idx. Num (real idx)) [0..<256]"

text \<open>
  \<^verbatim>\<open>getLUT\<close>: the three modifiers start as \<^verbatim>\<open>idFn\<close> and each enabled stage is
  composed on top, in the order of the four \<^verbatim>\<open>if\<close> statements. A number is truthy
  when it is not zero, an object always.
\<close>

definition getLUT :: "Effect \<Rightarrow> jsval list list" where
  "getLUT effect =
     (let rMod = idFn; gMod = idFn; bMod = idFn;
          (rMod, gMod, bMod) =
            (case curves effect of
               Some cv \<Rightarrow>
                 (compose (curvesFn (curve_r cv)) rMod,
                  compose (curvesFn (curve_g cv)) gMod,
                  compose (curvesFn (curve_b cv)) bMod)
             | None \<Rightarrow> (rMod, gMod, bMod));
          (rMod, gMod, bMod) =
            (if contrast effect \<noteq> 0
             then (let f = contrastFn (contrast effect)
                   in (compose f rMod, compose f gMod, compose f bMod))
             else (rMod, gMod, bMod));
          (rMod, gMod, bMod) =
            (if brightness effect \<noteq> 0
             then (let f = brightnessFn (brightness effect)
                   in (compose f rMod, compose f gMod, compose f bMod))
             else (rMod, gMod, bMod));
          (rMod, gMod, bMod) =
            (case screen effect of
               Some sc \<Rightarrow>
                 (let f = screenFn (color_a sc)
                  in (compose (f (color_r sc)) rMod,
                      compose (f (color_g sc)) gMod,
                      compose (f (color_b sc)) bMod))
             | None \<Rightarrow> (rMod, gMod, bMod))
      in [map rMod id_arr, map gMod id_arr, map bMod id_arr])"

section \<open>The pixel transform pass\<close>

text \<open>
  The buffer \<^verbatim>\<open>id\<close> is a copy of \<^verbatim>\<open>data.data\<close> made with
  \<^verbatim>\<open>slice(0)\<close> and written back with \<^verbatim>\<open>data.data.set(id)\<close>: a typed array.
  A typed array has a fixed length, reads outside of it give \<^verbatim>\<open>undefined\<close>, writes
  outside of it are dropped, and a write inside converts the value to the element type.
  The element type is declared by the canvas API and not by this repository, so the
  conversion is a parameter \<open>conv\<close> of the model; the samples themselves are finite
  numbers.
\<close>

definition typedGet :: "real list \<Rightarrow> int \<Rightarrow> jsval" where
  "typedGet arr k =
     (if 0 \<le> k \<and> k < int (length arr) then Num (arr ! nat k) else Undefined)"

definition typedSet :: "(jsval \<Rightarrow> real) \<Rightarrow> real list \<Rightarrow> int \<Rightarrow> jsval \<Rightarrow> real list" where
  "typedSet conv arr k v =
     (if 0 \<le> k \<and> k < int (length arr) then arr[nat k := conv v] else arr)"

text \<open>
  \<^verbatim>\<open>i << 2\<close>: both the operand and the result are 32-bit two's complement
  integers, so the product wraps around.
\<close>

definition toInt32 :: "int \<Rightarrow> int" where
  "toInt32 x = (x + 2 ^ 31) mod 2 ^ 32 - 2 ^ 31"

definition shl2 :: "nat \<Rightarrow> int" where
  "shl2 i = toInt32 (toInt32 (int i) * 4)"

text \<open>The block under \<^verbatim>\<open>if (sepia)\<close>.\<close>

definition sepiaMatrix :: "jsval \<Rightarrow> jsval \<Rightarrow> jsval \<Rightarrow> jsval \<times> jsval \<times> jsval" where
  "sepiaMatrix r g b =
     (let r' = jadd (jadd (jmul r (Num 0.393)) (jmul g (Num 0.769))) (jmul b (Num 0.189));
          g' = jadd (jadd (jmul r (Num 0.349)) (jmul g (Num 0.686))) (jmul b (Num 0.168));
          b' = jadd (jadd (jmul r (Num 0.272)) (jmul g (Num 0.534))) (jmul b (Num 0.131))
      in (r', g', b'))"

text \<open>The block under \<^verbatim>\<open>if (saturation < 1)\<close>.\<close>

definition saturationBlend :: "real \<Rightarrow> jsval \<Rightarrow> jsval \<Rightarrow> jsval \<Rightarrow> jsval \<times> jsval \<times> jsval" where
  "saturationBlend s r g b =
     (let avg = jdiv (jadd (jadd r g) b) (Num 3)
      in (jadd r (jmul (jsub avg r) (Num (1 - s))),
          jadd g (jmul (jsub avg g) (Num (1 - s))),
          jadd b (jmul (jsub avg b) (Num (1 - s)))))"

text \<open>
  The values of \<^verbatim>\<open>r\<close>, \<^verbatim>\<open>g\<close>, \<^verbatim>\<open>b\<close> that one iteration computes from the
  three samples it has read: the LUT lookups, then the two optional blocks.
\<close>

definition lutOutputs :: "jsval list list \<Rightarrow> jsval \<Rightarrow> jsval \<Rightarrow> jsval \<Rightarrow> jsval \<times> jsval \<times> jsval" where
  "lutOutputs LUT x y z = (jsIndex (LUT ! 0) x, jsIndex (LUT ! 1) y, jsIndex (LUT ! 2) z)"

definition pixelValues ::
  "jsval list list \<Rightarrow> bool \<Rightarrow> real \<Rightarrow> jsval \<Rightarrow> jsval \<Rightarrow> jsval \<Rightarrow> jsval \<times> jsval \<times> jsval" where
  "pixelValues LUT sep sat x y z =
     (let (r, g, b) = lutOutputs LUT x y z;
          (r, g, b) = (if sep then sepiaMatrix r g b else (r, g, b));
          (r, g, b) = (if sat < 1 then saturationBlend sat r g b else (r, g, b))
      in (r, g, b))"

text \<open>One iteration of the loop: three reads, the computation, three writes.\<close>

definition loopBody ::
  "(jsval \<Rightarrow> real) \<Rightarrow> jsval list list \<Rightarrow> bool \<Rightarrow> real \<Rightarrow> nat \<Rightarrow> real list \<Rightarrow> real list" where
  "loopBody conv LUT sep sat i idat =
     (let ri = shl2 i; gi = ri + 1; bi = ri + 2;
          (r, g, b) = pixelValues LUT sep sat (typedGet idat ri) (typedGet idat gi) (typedGet idat bi)
      in typedSet conv (typedSet conv (typedSet conv idat ri r) gi g) bi b)"

text \<open>
  \<^verbatim>\<open>for (let i = id.length / 4; i >= 0; --i)\<close>: the counter starts at the number of
  pixels and the last iteration is the one at 0. (When the length is not a multiple of 4
  the counter is fractional and \<^verbatim>\<open><<\<close> truncates it; the whole part runs through the
  same values.)
\<close>

fun pixelLoop :: "(nat \<Rightarrow> real list \<Rightarrow> real list) \<Rightarrow> nat \<Rightarrow> real list \<Rightarrow> real list" where
  "pixelLoop body 0 idat = body 0 idat"
| "pixelLoop body (Suc i) idat = pixelLoop body i (body (Suc i) idat)"

definition pixelPass :: "(jsval \<Rightarrow> real) \<Rightarrow> Effect \<Rightarrow> real list \<Rightarrow> real list" where
  "pixelPass conv effect idat =
     pixelLoop (loopBody conv (getLUT effect) (sepia effect) (saturation effect))
       (length idat div 4) idat"

section \<open>Surfaces and the entry point\<close>

text \<open>
  The canvas API is not part of the repository. A surface is its size, its bitmap (the
  interleaved RGBA samples that \<^verbatim>\<open>getImageData\<close> returns and \<^verbatim>\<open>putImageData\<close>
  replaces) and whether \<^verbatim>\<open>getContext('2d')\<close> gives a context. What the browser
  does when it draws, fills or loads is a parameter of the model.
\<close>

datatype error = UnsupportedSource | NoContext2d

record Image =
  img_width :: nat
  img_height :: nat
  img_data :: "real list"

record Canvas =
  width :: nat
  height :: nat
  bitmap :: "real list"
  context2d :: bool

datatype SourceElement = ImageElement Image | CanvasElement Canvas | OtherValue

datatype color = Rgba real real real real

record Platform =
  store :: "jsval \<Rightarrow> real"
  freshContext2d :: bool
  supportsMultiply :: bool
  drawImage :: "string \<Rightarrow> Image \<Rightarrow> nat \<Rightarrow> nat \<Rightarrow> real list \<Rightarrow> real list"
  fillGradient :: "string \<Rightarrow> color list \<Rightarrow> nat \<Rightarrow> nat \<Rightarrow> real list \<Rightarrow> real list"
  loadImage :: "string \<Rightarrow> Image option"

text \<open>The promise that \<^verbatim>\<open>applyEffect\<close> returns, by how it ends.\<close>

datatype 'a promise = Resolved 'a | Rejected error | Pending

text \<open>\<^verbatim>\<open>if (!width) width = el.width\<close>: an absent or zero size takes the image's.\<close>

definition orElse :: "nat option \<Rightarrow> nat \<Rightarrow> nat" where
  "orElse given dflt = (case given of None \<Rightarrow> dflt | Some n \<Rightarrow> if n = 0 then dflt else n)"

definition createCanvasAndCtxFromImage ::
  "Platform \<Rightarrow> Image \<Rightarrow> nat option \<Rightarrow> nat option \<Rightarrow> error + Canvas" where
  "createCanvasAndCtxFromImage P el w h =
     (let width' = orElse w (img_width el);
          height' = orElse h (img_height el)
      in if \<not> freshContext2d P then Inl NoContext2d
         else Inr \<lparr> width = width', height = height',
                    bitmap = drawImage P ''source-over'' el width' height'
                               (replicate (4 * width' * height') 0),
                    context2d = True \<rparr>)"

definition getCanvasAndCtx :: "Platform \<Rightarrow> SourceElement \<Rightarrow> error + Canvas" where
  "getCanvasAndCtx P el =
     (case el of
        ImageElement img \<Rightarrow> createCanvasAndCtxFromImage P img None None
      | CanvasElement cv \<Rightarrow> (if context2d cv then Inr cv else Inl NoContext2d)
      | OtherValue \<Rightarrow> Inl UnsupportedSource)"

text \<open>\<^verbatim>\<open>loadImageWithCache\<close>: the cache is the state shared by all calls.\<close>

definition loadImageWithCache ::
  "Platform \<Rightarrow> (string \<rightharpoonup> Image) \<Rightarrow> string \<Rightarrow> Image option \<times> (string \<rightharpoonup> Image)" where
  "loadImageWithCache P cache src =
     (case cache src of
        Some img \<Rightarrow> (Some img, cache)
      | None \<Rightarrow>
          (case loadImage P src of
             Some img \<Rightarrow> (Some img, cache(src \<mapsto> img))
           | None \<Rightarrow> (None, cache)))"

text \<open>
  The manual multiply of the viewfinder when blend modes are missing:
  \<^verbatim>\<open>imageData.data.map((v, i) => v * vfData[i] / 255)\<close>.
\<close>

definition multiplyFallback :: "(jsval \<Rightarrow> real) \<Rightarrow> real list \<Rightarrow> real list \<Rightarrow> real list" where
  "multiplyFallback conv vfData imageData =
     map (\<lambda>i. conv (jdiv (jmul (Num (imageData ! i)) (typedGet vfData (int i))) (Num 255)))
       [0..<length imageData]"

text \<open>
  The executor of the promise. \<^verbatim>\<open>getLUT\<close> cannot throw, so the pass builds the LUT
  where it uses it. An exception thrown by the executor rejects the promise;
  a failure inside the \<^verbatim>\<open>then\<close> callback of the viewfinder, or of its load, reaches
  neither \<^verbatim>\<open>resolve\<close> nor \<^verbatim>\<open>reject\<close> and leaves the promise pending.
\<close>

definition applyEffect ::
  "Platform \<Rightarrow> (string \<rightharpoonup> Image) \<Rightarrow> SourceElement \<Rightarrow> PartialEffect
     \<Rightarrow> Canvas promise \<times> (string \<rightharpoonup> Image)" where
  "applyEffect P cache srcEl partialEffect =
     (let effect = mergeEffect partialEffect
      in case getCanvasAndCtx P srcEl of
           Inl err \<Rightarrow> (Rejected err, cache)
         | Inr canvas \<Rightarrow>
             (let w = width canvas; h = height canvas;
                  supportsBlendModes = supportsMultiply P;
                  idat = pixelPass (store P) effect (bitmap canvas);
                  afterVignette =
                    (if vignette effect \<noteq> 0
                     then fillGradient P
                            (if supportsBlendModes then ''multiply'' else ''source-over'')
                            [Rgba 0 0 0 0, Rgba 0 0 0 0, Rgba 0 0 0 (vignette effect)] w h idat
                     else idat);
                  afterLighten =
                    (if lighten effect \<noteq> 0
                     then fillGradient P
                            (if supportsBlendModes then ''screen'' else ''lighter'')
                            [Rgba 255 255 255 (lighten effect), Rgba 255 255 255 0,
                             Rgba 0 0 0 0] w h afterVignette
                     else afterVignette)
              in case viewfinder effect of
                   None \<Rightarrow> (Resolved (canvas\<lparr>bitmap := afterLighten\<rparr>), cache)
                 | Some src \<Rightarrow>
                     if src = [] then (Resolved (canvas\<lparr>bitmap := afterLighten\<rparr>), cache)
                     else
                       (case loadImageWithCache P cache src of
                          (None, cache') \<Rightarrow> (Pending, cache')
                        | (Some img, cache') \<Rightarrow>
                            if supportsBlendModes
                            then (Resolved (canvas\<lparr>bitmap :=
                                    drawImage P ''multiply'' img w h afterLighten\<rparr>), cache')
                            else
                              (case createCanvasAndCtxFromImage P img (Some w) (Some h) of
                                 Inl err \<Rightarrow> (Pending, cache')
                               | Inr vf \<Rightarrow>
                                   (Resolved (canvas\<lparr>bitmap :=
                                      multiplyFallback (store P) (bitmap vf) afterLighten\<rparr>),
                                    cache')))))"

section \<open>The LUT as the specification words it\<close>

text \<open>
  The specification describes each table as a chain of the enabled stages, in the order
  curves, contrast, brightness, screen, run on each of the 256 inputs. These definitions
  follow that wording; they are compared with \<^verbatim>\<open>getLUT\<close> below.
\<close>

datatype channel = ChR | ChG | ChB

fun curveOf :: "channel \<Rightarrow> Curve \<Rightarrow> jsval list" where
  "curveOf ChR cv = curve_r cv"
| "curveOf ChG cv = curve_g cv"
| "curveOf ChB cv = curve_b cv"

fun colorOf :: "channel \<Rightarrow> RGBAColor \<Rightarrow> real" where
  "colorOf ChR sc = color_r sc"
| "colorOf ChG sc = color_g sc"
| "colorOf ChB sc = color_b sc"

definition enabledStages :: "Effect \<Rightarrow> channel \<Rightarrow> (jsval \<Rightarrow> jsval) list" where
  "enabledStages e ch =
     (case curves e of Some cv \<Rightarrow> [curvesFn (curveOf ch cv)] | None \<Rightarrow> [])
     @ (if contrast e \<noteq> 0 then [contrastFn (contrast e)] else [])
     @ (if brightness e \<noteq> 0 then [brightnessFn (brightness e)] else [])
     @ (case screen e of Some sc \<Rightarrow> [screenFn (color_a sc) (colorOf ch sc)] | None \<Rightarrow> [])"

text \<open>Each stage's output feeds the next.\<close>

definition runStages :: "(jsval \<Rightarrow> jsval) list \<Rightarrow> jsval \<Rightarrow> jsval" where
  "runStages fs c = foldl (\<lambda>v f. f v) c fs"

definition composedTable :: "Effect \<Rightarrow> channel \<Rightarrow> jsval list" where
  "composedTable e ch = map (\<lambda>i. runStages (enabledStages e ch) (Num (real i))) [0..<256]"

section \<open>What the pass leaves in the buffer\<close>

text \<open>
  The sample that the pass should leave at position \<open>j\<close>, read off the original buffer:
  the converted red, green or blue value computed from the three colour samples of the
  pixel that \<open>j\<close> belongs to, and the original sample at an alpha position.
\<close>

definition passValue ::
  "(jsval \<Rightarrow> real) \<Rightarrow> jsval list list \<Rightarrow> bool \<Rightarrow> real \<Rightarrow> real list \<Rightarrow> nat \<Rightarrow> real" where
  "passValue conv LUT sep sat idat j =
     (let p = 4 * (j div 4);
          (r, g, b) = pixelValues LUT sep sat (typedGet idat (int p)) (typedGet idat (int (p + 1)))
                        (typedGet idat (int (p + 2)))
      in if j mod 4 = 0 then conv r
         else if j mod 4 = 1 then conv g
         else if j mod 4 = 2 then conv b
         else idat ! j)"

text \<open>
  Inputs of the examples: a buffer that keeps every finite number as it is, and the
  default effect with nothing but \<^verbatim>\<open>brightness: 0.1\<close> overridden.
\<close>

definition keepNumber :: "jsval \<Rightarrow> real" where
  "keepNumber v = (case v of Num x \<Rightarrow> x | _ \<Rightarrow> 0)"

definition brighter :: Effect where
  "brighter = mergeEffect (noOverrides\<lparr>p_brightness := Some 0.1\<rparr>)"

text \<open>
  Two more configurations: sepia alone, and the contrast \<open>259 / 256\<close> at which the
  divisor of the contrast stage is zero, with saturation 0.
\<close>

definition sepiaOnly :: Effect where
  "sepiaOnly = mergeEffect (noOverrides\<lparr>p_sepia := Some True\<rparr>)"

definition overdriven :: Effect where
  "overdriven =
     mergeEffect (noOverrides\<lparr>p_contrast := Some (259 / 256), p_saturation := Some 0\<rparr>)"

section \<open>Binary64 arithmetic\<close>

text \<open>
  A JavaScript number is an IEEE-754 binary64 value: 53 significant bits, exponents from
  -1022 to 1023, subnormal numbers below. Every arithmetic operation returns the exact
  result rounded to the nearest such value, ties to the even significand, and a result of
  magnitude \<open>2 ^ 1024\<close> or more is an infinity. \<open>binade a\<close> is the power of two at the
  bottom of the binade of \<open>a\<close> (never below \<open>2 ^ -1022\<close>, so that subnormal numbers share
  the spacing of the smallest normal ones), found by doubling from 1 or halving from
  \<open>1 / 2\<close>; the spacing of the representable numbers there is \<open>binade a / 2 ^ 52\<close>.
  A decimal literal of the source denotes the binary64 value nearest to it.
\<close>

fun binadeUp :: "nat \<Rightarrow> real \<Rightarrow> real \<Rightarrow> real" where
  "binadeUp 0 p a = p"
| "binadeUp (Suc n) p a = (if a < 2 * p then p else binadeUp n (2 * p) a)"

fun binadeDown :: "nat \<Rightarrow> real \<Rightarrow> real \<Rightarrow> real" where
  "binadeDown 0 p a = p"
| "binadeDown (Suc n) p a = (if p \<le> a then p else binadeDown n (p / 2) a)"

definition binade :: "real \<Rightarrow> real" where
  "binade a = (if a < 1 then binadeDown 1021 (1 / 2) a else binadeUp 1024 1 a)"

definition roundEven :: "real \<Rightarrow> int" where
  "roundEven m =
     (let f = \<lfloor>m\<rfloor>; d = m - of_int f
      in if d < 1 / 2 then f else if 1 / 2 < d then f + 1 else if even f then f else f + 1)"

definition fl64 :: "real \<Rightarrow> jsval" where
  "fl64 x =
     (let q = binade \<bar>x\<bar> / 2 ^ 52;
          r = of_int (roundEven (x / q)) * q
      in if 2 ^ 1024 \<le> \<bar>r\<bar> then (if 0 < r then PInf else NInf) else Num r)"

fun round64 :: "jsval \<Rightarrow> jsval" where
  "round64 (Num x) = fl64 x"
| "round64 v = v"

definition jadd64 :: "jsval \<Rightarrow> jsval \<Rightarrow> jsval" where
  "jadd64 a b = round64 (jadd a b)"

definition jsub64 :: "jsval \<Rightarrow> jsval \<Rightarrow> jsval" where
  "jsub64 a b = round64 (jsub a b)"

definition jmul64 :: "jsval \<Rightarrow> jsval \<Rightarrow> jsval" where
  "jmul64 a b = round64 (jmul a b)"

definition jdiv64 :: "jsval \<Rightarrow> jsval \<Rightarrow> jsval" where
  "jdiv64 a b = round64 (jdiv a b)"

text \<open>
  The stage and pixel expressions of the source with every operation rounded, in the
  order in which the source evaluates them.
\<close>

definition contrastFn64 :: "real \<Rightarrow> jsval \<Rightarrow> jsval" where
  "contrastFn64 f c =
     jadd64 (jmul64 (jdiv64 (jmul64 (Num 259) (jadd64 (jmul64 (Num f) (Num 256)) (Num 255)))
                            (jmul64 (Num 255) (jsub64 (Num 259) (jmul64 (Num f) (Num 256)))))
                    (jsub64 c (Num 128)))
            (Num 128)"

definition sepiaMatrix64 :: "jsval \<Rightarrow> jsval \<Rightarrow> jsval \<Rightarrow> jsval \<times> jsval \<times> jsval" where
  "sepiaMatrix64 r g b =
     (let r' = jadd64 (jadd64 (jmul64 r (fl64 0.393)) (jmul64 g (fl64 0.769))) (jmul64 b (fl64 0.189));
          g' = jadd64 (jadd64 (jmul64 r (fl64 0.349)) (jmul64 g (fl64 0.686))) (jmul64 b (fl64 0.168));
          b' = jadd64 (jadd64 (jmul64 r (fl64 0.272)) (jmul64 g (fl64 0.534))) (jmul64 b (fl64 0.131))
      in (r', g', b'))"

definition saturationBlend64 :: "real \<Rightarrow> jsval \<Rightarrow> jsval \<Rightarrow> jsval \<Rightarrow> jsval \<times> jsval \<times> jsval" where
  "saturationBlend64 s r g b =
     (let avg = jdiv64 (jadd64 (jadd64 r g) b) (Num 3)
      in (jadd64 r (jmul64 (jsub64 avg r) (jsub64 (Num 1) (Num s))),
          jadd64 g (jmul64 (jsub64 avg g) (jsub64 (Num 1) (Num s))),
          jadd64 b (jmul64 (jsub64 avg b) (jsub64 (Num 1) (Num s)))))"

text \<open>The default effect with sepia and \<^verbatim>\<open>brightness: 0.1\<close>.\<close>

definition brighterSepia :: Effect where
  "brighterSepia = mergeEffect (noOverrides\<lparr>p_sepia := Some True, p_brightness := Some 0.1\<rparr>)"

section \<open>Properties of the LUT builder\<close>

lemma length_id_arr: "length id_arr = 256"
  by (simp add: id_arr_def)

lemma nth_id_arr: "i < 256 \<Longrightarrow> id_arr ! i = Num (real i)"
  by (simp add: id_arr_def)

lemma getLUT_length: "length (getLUT e) = 3"
  by (simp add: getLUT_def Let_def split: option.splits prod.splits)

lemma getLUT_plain:
  assumes "curves e = None" and "screen e = None" and "brightness e = 0" and "contrast e = 0"
  shows "getLUT e = [id_arr, id_arr, id_arr]"
proof -
  have "map idFn id_arr = id_arr"
    by (induction id_arr) (simp_all add: idFn_def)
  then show ?thesis
    using assms by (simp add: getLUT_def)
qed

lemma jsIndex_table:
  "jsIndex (map f id_arr) (Num x) =
     (if 0 \<le> x \<and> x = of_int \<lfloor>x\<rfloor> \<and> nat \<lfloor>x\<rfloor> < 256 then f (Num x) else Undefined)"
proof (cases "0 \<le> x \<and> x = of_int \<lfloor>x\<rfloor> \<and> nat \<lfloor>x\<rfloor> < 256")
  case True
  then have "real (nat \<lfloor>x\<rfloor>) = x"
    by (metis of_int_0_le_iff of_nat_nat)
  then show ?thesis
    using True by (simp add: jsIndex_def length_id_arr nth_id_arr)
next
  case False
  then show ?thesis
    by (auto simp: jsIndex_def length_id_arr)
qed

lemma jsIndex_not_number:
  "jsIndex arr Undefined = Undefined" "jsIndex arr NaN = Undefined"
  "jsIndex arr PInf = Undefined" "jsIndex arr NInf = Undefined"
  by (simp_all add: jsIndex_def)

text \<open>
  Claim C1. When the merged configuration has no curves, no screen colour, brightness 0
  and contrast 0, \<^verbatim>\<open>getLUT\<close> returns three tables of 256 entries, and entry \<open>i\<close> of
  each table is the number \<open>i\<close>. The other keys of the configuration do not matter.
\<close>

theorem getLUT_defaults_identity:
  assumes "curves (mergeEffect p) = None" and "screen (mergeEffect p) = None"
    and "brightness (mergeEffect p) = 0" and "contrast (mergeEffect p) = 0"
    and "c < 3" and "i < 256"
  shows "length (getLUT (mergeEffect p)) = 3
       \<and> length (getLUT (mergeEffect p) ! c) = 256
       \<and> getLUT (mergeEffect p) ! c ! i = Num (real i)"
proof -
  have lut: "getLUT (mergeEffect p) = [id_arr, id_arr, id_arr]"
    using assms(1-4) by (rule getLUT_plain)
  have row: "[id_arr, id_arr, id_arr] ! c = id_arr"
    using \<open>c < 3\<close> by (auto simp: less_Suc_eq numeral_3_eq_3)
  show ?thesis
    using \<open>i < 256\<close> by (simp add: lut row length_id_arr nth_id_arr)
qed

theorem getLUT_defaults_identity_witness:
  "curves (mergeEffect (noOverrides\<lparr>p_saturation := Some (1 / 2), p_sepia := Some True\<rparr>)) = None
   \<and> contrast (mergeEffect (noOverrides\<lparr>p_saturation := Some (1 / 2), p_sepia := Some True\<rparr>)) = 0
   \<and> getLUT (mergeEffect (noOverrides\<lparr>p_saturation := Some (1 / 2), p_sepia := Some True\<rparr>)) ! 2 ! 200
       = Num 200"
proof -
  let ?p = "noOverrides\<lparr>p_saturation := Some (1 / 2), p_sepia := Some True\<rparr>"
  have h: "curves (mergeEffect ?p) = None" "screen (mergeEffect ?p) = None"
    "brightness (mergeEffect ?p) = 0" "contrast (mergeEffect ?p) = 0"
    by (simp_all add: mergeEffect_def noOverrides_def defaultEffect_def spread_def)
  have "(2::nat) < 3" and "(200::nat) < 256"
    by simp_all
  from getLUT_defaults_identity [OF h this] h show ?thesis
    by simp
qed

text \<open>
  Claim C2. For every configuration, the table of each channel that \<^verbatim>\<open>getLUT\<close>
  builds is the chain of the enabled stages (curves if set, then contrast if not zero,
  then brightness if not zero, then screen if set), run on each of the inputs 0 to 255.
\<close>

theorem getLUT_composition:
  "getLUT e = [composedTable e ChR, composedTable e ChG, composedTable e ChB]
   \<and> length (composedTable e ch) = 256"
  by (simp add: getLUT_def composedTable_def enabledStages_def runStages_def compose_def
        idFn_def id_arr_def Let_def comp_def split: option.splits)

section \<open>Properties of binary64 rounding\<close>

lemma binadeUp_numeral:
  "binadeUp (numeral k) p a = (if a < 2 * p then p else binadeUp (pred_numeral k) (2 * p) a)"
  by (simp add: numeral_eq_Suc)

lemma binadeDown_numeral:
  "binadeDown (numeral k) p a = (if p \<le> a then p else binadeDown (pred_numeral k) (p / 2) a)"
  by (simp add: numeral_eq_Suc)

lemmas fl64_eval = fl64_def binade_def binadeUp_numeral binadeDown_numeral roundEven_def Let_def

lemma roundEven_of_int: "roundEven (of_int m) = m"
  by (simp add: roundEven_def)

lemma binadeUp_le: "p \<le> a \<Longrightarrow> binadeUp n p a \<le> a"
  by (induction n arbitrary: p) auto

lemma binadeUp_power: "\<exists>i. binadeUp n (2 ^ j) a = 2 ^ i"
proof (induction n arbitrary: j)
  case 0
  show ?case by auto
next
  case (Suc n)
  from Suc [of "Suc j"] show ?case by auto
qed

lemma fl64_of_int:
  assumes "\<bar>k\<bar> < 2 ^ 53"
  shows "fl64 (of_int k) = Num (of_int k)"
proof (cases "k = 0")
  case True
  then show ?thesis
    by (simp add: fl64_def roundEven_def)
next
  case False
  define a :: real where "a = \<bar>of_int k\<bar>"
  have a1: "1 \<le> a"
    using False by (simp add: a_def)
  have a53: "a < 2 ^ 53"
  proof -
    have "real_of_int \<bar>k\<bar> < real_of_int (2 ^ 53)"
      using assms by (simp only: of_int_less_iff)
    then show ?thesis
      by (simp add: a_def)
  qed
  obtain i :: nat where i: "binadeUp 1024 1 a = 2 ^ i"
    using binadeUp_power [of 1024 0 a] by auto
  have "binadeUp 1024 1 a \<le> a"
    using a1 by (rule binadeUp_le)
  then have "(2::real) ^ i < 2 ^ 53"
    using a53 i by simp
  then have i52: "i \<le> 52"
    using power_strict_increasing_iff [of "2::real" i 53] by simp
  have b: "binade a = 2 ^ i"
    using a1 i by (simp add: binade_def)
  have p: "(2::real) ^ 52 = 2 ^ i * 2 ^ (52 - i)"
    using i52 by (simp add: power_add [symmetric])
  have m: "real_of_int k / (2 ^ i / 2 ^ 52) = of_int (k * 2 ^ (52 - i))"
    by (simp only: p) simp
  have r: "of_int (roundEven (real_of_int k / (2 ^ i / 2 ^ 52))) * (2 ^ i / 2 ^ 52) = real_of_int k"
    by (simp only: m roundEven_of_int) (simp only: p, simp)
  have small: "\<not> 2 ^ 1024 \<le> \<bar>real_of_int k\<bar>"
  proof -
    have "(2::real) ^ 53 \<le> 2 ^ 1024"
      by (rule power_increasing) simp_all
    then show ?thesis
      using a53 by (simp add: a_def)
  qed
  show ?thesis
    unfolding fl64_def Let_def a_def [symmetric] b r
    using small by (simp add: a_def)
qed

lemma contrastFn64_zero_int:
  assumes "\<bar>n\<bar> < 2 ^ 52"
  shows "contrastFn64 0 (Num (of_int n)) = Num (of_int n)"
proof -
  have z: "fl64 0 = Num 0"
    using fl64_of_int [of 0] by simp
  have c255: "fl64 255 = Num 255" and c259: "fl64 259 = Num 259" and c1: "fl64 1 = Num 1"
    and c66045: "fl64 66045 = Num 66045"
    using fl64_of_int [of 255] fl64_of_int [of 259] fl64_of_int [of 1] fl64_of_int [of 66045]
    by simp_all
  have gain: "jdiv64 (jmul64 (Num 259) (jadd64 (jmul64 (Num 0) (Num 256)) (Num 255)))
                (jmul64 (Num 255) (jsub64 (Num 259) (jmul64 (Num 0) (Num 256)))) = Num 1"
    by (simp add: jdiv64_def jmul64_def jadd64_def jsub64_def jsub_def z c255 c259 c1 c66045)
  have "\<bar>n - 128\<bar> < 2 ^ 53"
    using assms by simp
  then have d: "fl64 (of_int n - 128) = Num (of_int n - 128)"
    using fl64_of_int [of "n - 128"] by simp
  have "\<bar>n\<bar> < 2 ^ 53"
    using assms by simp
  then have e: "fl64 (of_int n) = Num (of_int n)"
    by (rule fl64_of_int)
  show ?thesis
    unfolding contrastFn64_def gain
    by (simp add: jadd64_def jmul64_def jsub64_def jsub_def d e)
qed

lemma contrastFn64_tenth:
  "contrastFn64 0 (Num (3602879701896397 / 36028797018963968)) = Num (3518437208883 / 35184372088832)"
proof -
  have z: "fl64 0 = Num 0"
    using fl64_of_int [of 0] by simp
  have c255: "fl64 255 = Num 255" and c259: "fl64 259 = Num 259" and c1: "fl64 1 = Num 1"
    and c66045: "fl64 66045 = Num 66045"
    using fl64_of_int [of 255] fl64_of_int [of 259] fl64_of_int [of 1] fl64_of_int [of 66045]
    by simp_all
  have gain: "jdiv64 (jmul64 (Num 259) (jadd64 (jmul64 (Num 0) (Num 256)) (Num 255)))
                (jmul64 (Num 255) (jsub64 (Num 259) (jmul64 (Num 0) (Num 256)))) = Num 1"
    by (simp add: jdiv64_def jmul64_def jadd64_def jsub64_def jsub_def z c255 c259 c1 c66045)
  have d: "jsub64 (Num (3602879701896397 / 36028797018963968)) (Num 128)
           = Num (- 4500081190161613 / 35184372088832)"
    by (simp add: jsub64_def jsub_def fl64_eval)
  have m: "jmul64 (Num 1) (Num (- 4500081190161613 / 35184372088832))
           = Num (- 4500081190161613 / 35184372088832)"
    by (simp add: jmul64_def fl64_eval)
  have s: "jadd64 (Num (- 4500081190161613 / 35184372088832)) (Num 128)
           = Num (3518437208883 / 35184372088832)"
    by (simp add: jadd64_def fl64_eval)
  show ?thesis
    unfolding contrastFn64_def gain d m s ..
qed


section \<open>Properties of the stage functions\<close>

text \<open>
  Claim C7, as stated, fails in binary64. The literal \<^verbatim>\<open>0.1\<close> is the number
  \<open>3602879701896397 / 2 ^ 55\<close>; \<^verbatim>\<open>contrastFn(0)\<close> computes the gain 1 exactly, but
  \<^verbatim>\<open>c - 128\<close> is rounded to 53 bits and adding 128 back gives
  \<open>3518437208883 / 2 ^ 45\<close>, that is 0.09999999999999432, not the input.
\<close>

theorem contrastFn_identity_counterexample:
  "fl64 0.1 = Num (3602879701896397 / 36028797018963968)
   \<and> contrastFn64 0 (Num (3602879701896397 / 36028797018963968))
       = Num (3518437208883 / 35184372088832)
   \<and> (3518437208883 / 35184372088832 :: real) \<noteq> 3602879701896397 / 36028797018963968"
  by (simp add: contrastFn64_tenth) (simp add: fl64_eval)

text \<open>
  Claim C7, amended. In exact arithmetic the contrast stage computes
  \<open>259 * (f * 256 + 255) / (255 * (259 - f * 256)) * (c - 128) + 128\<close> on a finite number
  (the divisor is zero only at \<open>f * 256 = 259\<close>), and with \<open>f = 0\<close> it returns every
  number it is given, the infinities and NaN included. With every operation rounded to
  binary64, the stage with \<open>f = 0\<close> returns every integer of magnitude below \<open>2 ^ 52\<close>
  unchanged, in particular each of the LUT inputs 0 to 255.
\<close>

theorem contrastFn_formula_and_identity:
  "(f * 256 \<noteq> 259 \<longrightarrow>
      contrastFn f (Num c) =
        Num (259 * (f * 256 + 255) / (255 * (259 - f * 256)) * (c - 128) + 128))
   \<and> (c' \<noteq> Undefined \<longrightarrow> contrastFn 0 c' = c')
   \<and> (\<bar>n\<bar> < 2 ^ 52 \<longrightarrow> contrastFn64 0 (Num (of_int n)) = Num (of_int n))"
proof (intro conjI)
  show "f * 256 \<noteq> 259 \<longrightarrow>
      contrastFn f (Num c) =
        Num (259 * (f * 256 + 255) / (255 * (259 - f * 256)) * (c - 128) + 128)"
    by (simp add: contrastFn_def jsub_def)
  show "c' \<noteq> Undefined \<longrightarrow> contrastFn 0 c' = c'"
    by (cases c') (simp_all add: contrastFn_def jsub_def infOfSign_def)
  show "\<bar>n\<bar> < 2 ^ 52 \<longrightarrow> contrastFn64 0 (Num (of_int n)) = Num (of_int n)"
    using contrastFn64_zero_int by blast
qed

theorem contrastFn_formula_and_identity_witness:
  "contrastFn (1 / 2) (Num 200) = Num (259 * 383 / (255 * 131) * 72 + 128)
   \<and> contrastFn 0 (Num 200) = Num 200 \<and> contrastFn 0 PInf = PInf
   \<and> contrastFn64 0 (Num 200) = Num 200 \<and> contrastFn64 0 (Num 255) = Num 255"
  using contrastFn_formula_and_identity [of "1 / 2" 200 "Num 200" 200]
    contrastFn_formula_and_identity [of 0 0 PInf 255]
  by simp

section \<open>Properties of the pixel loop\<close>

lemma toInt32_small: "0 \<le> x \<Longrightarrow> x < 2 ^ 31 \<Longrightarrow> toInt32 x = x"
  by (simp add: toInt32_def)

lemma shl2_small: "i < 2 ^ 29 \<Longrightarrow> shl2 i = 4 * int i"
  by (simp add: shl2_def toInt32_def)

lemma toInt32_mod4:
  assumes "x mod 4 = 0"
  shows "toInt32 x mod 4 = 0"
proof -
  define y where "y = (x + 2147483648) mod 4294967296"
  have "y mod 4 = (x + 2147483648) mod 4"
    unfolding y_def by (rule mod_mod_cancel) simp
  then have "(y - 2147483648) mod 4 = 0"
    using assms by presburger
  then show ?thesis
    by (simp add: toInt32_def y_def)
qed

lemma shl2_mod4: "shl2 i mod 4 = 0"
  by (simp add: shl2_def toInt32_mod4)

lemma length_typedSet: "length (typedSet conv arr k v) = length arr"
  by (simp add: typedSet_def)

lemma nth_typedSet:
  "j < length arr \<Longrightarrow> typedSet conv arr k v ! j = (if k = int j then conv v else arr ! j)"
  by (auto simp: typedSet_def nth_list_update)

lemma length_loopBody: "length (loopBody conv LUT sep sat i idat) = length idat"
  by (simp add: loopBody_def Let_def length_typedSet split: prod.splits)

lemma nth_loopBody:
  assumes "j < length idat"
  shows "loopBody conv LUT sep sat i idat ! j =
     (let ri = shl2 i;
          (r, g, b) = pixelValues LUT sep sat (typedGet idat ri) (typedGet idat (ri + 1)) (typedGet idat (ri + 2))
      in if int j = ri then conv r
         else if int j = ri + 1 then conv g
         else if int j = ri + 2 then conv b
         else idat ! j)"
  using assms
  by (auto simp: loopBody_def Let_def length_typedSet nth_typedSet split: prod.splits)

lemma loopBody_alpha:
  assumes "j < length idat" and "j mod 4 = 3"
  shows "loopBody conv LUT sep sat i idat ! j = idat ! j"
proof -
  have m: "int j mod 4 = 3"
    using assms(2) by presburger
  have "shl2 i mod 4 = 0"
    by (rule shl2_mod4)
  then have "int j \<noteq> shl2 i" "int j \<noteq> shl2 i + 1" "int j \<noteq> shl2 i + 2"
    using m by presburger+
  then show ?thesis
    using assms(1) by (simp add: nth_loopBody Let_def split: prod.splits)
qed

lemma length_pixelLoop:
  "(\<And>i a. length (body i a) = length a) \<Longrightarrow> length (pixelLoop body n idat) = length idat"
  by (induction n arbitrary: idat) simp_all

lemma pixelLoop_alpha:
  assumes "j < length idat" and "j mod 4 = 3"
  shows "pixelLoop (loopBody conv LUT sep sat) n idat ! j = idat ! j"
  using assms
proof (induction n arbitrary: idat)
  case 0
  then show ?case by (simp add: loopBody_alpha)
next
  case (Suc n)
  have "pixelLoop (loopBody conv LUT sep sat) n (loopBody conv LUT sep sat (Suc n) idat) ! j
        = loopBody conv LUT sep sat (Suc n) idat ! j"
    using Suc.prems by (intro Suc.IH) (simp_all add: length_loopBody)
  then show ?case
    using Suc.prems by (simp add: loopBody_alpha)
qed


lemma nth_loopBody_small:
  assumes "j < length idat" and "i < 2 ^ 29"
  shows "loopBody conv LUT sep sat i idat ! j =
     (if j div 4 = i then passValue conv LUT sep sat idat j else idat ! j)"
proof -
  have ri: "shl2 i = 4 * int i"
    using assms(2) by (rule shl2_small)
  obtain r g b where pv:
    "pixelValues LUT sep sat (typedGet idat (4 * int i)) (typedGet idat (4 * int i + 1))
       (typedGet idat (4 * int i + 2)) = (r, g, b)"
    using prod_cases3 by blast
  have L: "loopBody conv LUT sep sat i idat ! j =
      (if int j = 4 * int i then conv r
       else if int j = 4 * int i + 1 then conv g
       else if int j = 4 * int i + 2 then conv b
       else idat ! j)"
    using assms(1) by (simp only: nth_loopBody ri Let_def pv prod.case)
  show ?thesis
  proof (cases "j div 4 = i")
    case True
    have "j = 4 * (j div 4) + j mod 4"
      by simp
    with True have j: "int j = 4 * int i + int (j mod 4)"
      by linarith
    have c: "(int j = 4 * int i) = (j mod 4 = 0)" "(int j = 4 * int i + 1) = (j mod 4 = 1)"
      "(int j = 4 * int i + 2) = (j mod 4 = 2)"
      using j by linarith+
    have p: "int (4 * i) = 4 * int i" "int (4 * i + 1) = 4 * int i + 1"
      "int (4 * i + 2) = 4 * int i + 2"
      by simp_all
    have R: "passValue conv LUT sep sat idat j =
      (if j mod 4 = 0 then conv r
       else if j mod 4 = 1 then conv g
       else if j mod 4 = 2 then conv b
       else idat ! j)"
      by (simp only: passValue_def Let_def True p pv prod.case)
    show ?thesis
      using True by (simp add: L R c)
  next
    case False
    then have "j \<noteq> 4 * i" "j \<noteq> 4 * i + 1" "j \<noteq> 4 * i + 2"
      by auto
    then have "int j \<noteq> 4 * int i" "int j \<noteq> 4 * int i + 1" "int j \<noteq> 4 * int i + 2"
      by linarith+
    then show ?thesis
      using False by (simp add: L)
  qed
qed

lemma typedGet_loopBody_other:
  assumes "i < 2 ^ 29" and "k div 4 \<noteq> i"
  shows "typedGet (loopBody conv LUT sep sat i idat) (int k) = typedGet idat (int k)"
  using assms by (simp add: typedGet_def length_loopBody nth_loopBody_small)

lemma passValue_loopBody_other:
  assumes "i < 2 ^ 29" and "j div 4 \<noteq> i" and "j < length idat"
  shows "passValue conv LUT sep sat (loopBody conv LUT sep sat i idat) j
         = passValue conv LUT sep sat idat j"
proof -
  let ?p = "4 * (j div 4)"
  have d: "?p div 4 \<noteq> i" "(?p + 1) div 4 \<noteq> i" "(?p + 2) div 4 \<noteq> i"
    using assms(2) by simp_all
  have "typedGet (loopBody conv LUT sep sat i idat) (int ?p) = typedGet idat (int ?p)"
    using assms(1) d(1) by (rule typedGet_loopBody_other)
  moreover
  have "typedGet (loopBody conv LUT sep sat i idat) (int (?p + 1)) = typedGet idat (int (?p + 1))"
    using assms(1) d(2) by (rule typedGet_loopBody_other)
  moreover
  have "typedGet (loopBody conv LUT sep sat i idat) (int (?p + 2)) = typedGet idat (int (?p + 2))"
    using assms(1) d(3) by (rule typedGet_loopBody_other)
  moreover have "loopBody conv LUT sep sat i idat ! j = idat ! j"
    using assms by (simp add: nth_loopBody_small)
  ultimately show ?thesis
    by (simp only: passValue_def Let_def)
qed

lemma nth_pixelLoop:
  assumes "j < length idat" and "n < 2 ^ 29"
  shows "pixelLoop (loopBody conv LUT sep sat) n idat ! j =
     (if j div 4 \<le> n then passValue conv LUT sep sat idat j else idat ! j)"
  using assms
proof (induction n arbitrary: idat)
  case 0
  then show ?case by (simp add: nth_loopBody_small)
next
  case (Suc n)
  let ?b = "loopBody conv LUT sep sat (Suc n) idat"
  have len: "j < length ?b" and n: "n < 2 ^ 29"
    using Suc.prems by (simp_all add: length_loopBody)
  have ih: "pixelLoop (loopBody conv LUT sep sat) n ?b ! j =
     (if j div 4 \<le> n then passValue conv LUT sep sat ?b j else ?b ! j)"
    using len n by (rule Suc.IH)
  show ?case
  proof (cases "j div 4 \<le> n")
    case True
    then have "j div 4 \<noteq> Suc n" by simp
    then have "passValue conv LUT sep sat ?b j = passValue conv LUT sep sat idat j"
      using Suc.prems by (intro passValue_loopBody_other) simp_all
    then show ?thesis
      using True ih by simp
  next
    case False
    then show ?thesis
      using ih Suc.prems by (auto simp: nth_loopBody_small)
  qed
qed


lemma loopBody_past_end:
  assumes "length idat = 4 * n" and "n < 2 ^ 29"
  shows "loopBody conv LUT sep sat n idat = idat"
proof (rule nth_equalityI)
  show "length (loopBody conv LUT sep sat n idat) = length idat"
    by (rule length_loopBody)
next
  fix j
  assume "j < length (loopBody conv LUT sep sat n idat)"
  then have j: "j < length idat"
    by (simp add: length_loopBody)
  then have "j div 4 \<noteq> n"
    using assms(1) by auto
  then show "loopBody conv LUT sep sat n idat ! j = idat ! j"
    using j assms(2) by (simp add: nth_loopBody_small)
qed

lemma typedGet_in_range: "k < length arr \<Longrightarrow> typedGet arr (int k) = Num (arr ! k)"
  by (simp add: typedGet_def)

lemma nth_pixelPass:
  assumes "j < length idat" and "length idat < 2 ^ 31"
  shows "pixelPass conv effect idat ! j
         = passValue conv (getLUT effect) (sepia effect) (saturation effect) idat j"
proof -
  have "length idat div 4 < 2 ^ 29"
    using assms(2) by simp
  moreover have "j div 4 \<le> length idat div 4"
    using assms(1) by (simp add: div_le_mono)
  ultimately show ?thesis
    using assms(1) by (simp add: pixelPass_def nth_pixelLoop)
qed

lemma typedSet_in_range: "k < length arr \<Longrightarrow> typedSet conv arr (int k) v = arr[k := conv v]"
  by (simp add: typedSet_def)

lemma loopBody_whole_pixel:
  assumes "4 * i + 2 < length idat" and "i < 2 ^ 29"
    and "pixelValues LUT sep sat (Num (idat ! (4 * i))) (Num (idat ! (4 * i + 1)))
           (Num (idat ! (4 * i + 2))) = (r, g, b)"
  shows "loopBody conv LUT sep sat i idat
         = idat[4 * i := conv r, 4 * i + 1 := conv g, 4 * i + 2 := conv b]"
proof -
  have ri: "shl2 i = int (4 * i)"
    using assms(2) by (simp add: shl2_small)
  have gi: "int (4 * i) + 1 = int (4 * i + 1)" "int (4 * i) + 2 = int (4 * i + 2)"
    by simp_all
  have k: "4 * i < length idat" "4 * i + 1 < length idat"
    using assms(1) by simp_all
  have w: "4 * i + 1 < length (idat[4 * i := conv r])"
    "4 * i + 2 < length (idat[4 * i := conv r, 4 * i + 1 := conv g])"
    using assms(1) by simp_all
  show ?thesis
    by (simp only: loopBody_def Let_def ri gi typedGet_in_range [OF k(1)] typedGet_in_range [OF k(2)]
          typedGet_in_range [OF assms(1)] assms(3) prod.case typedSet_in_range [OF k(1)]
          typedSet_in_range [OF w(1)] typedSet_in_range [OF w(2)])
qed

lemma pixelLoop_4:
  "pixelLoop body 4 x = body 0 (body 1 (body 2 (body 3 (body 4 x))))"
  by (simp add: eval_nat_numeral)


lemma brighter_fields:
  "sepia brighter = False" "saturation brighter = 1"
  "getLUT brighter = [map (brightnessFn (1 / 10)) id_arr, map (brightnessFn (1 / 10)) id_arr,
                      map (brightnessFn (1 / 10)) id_arr]"
  by (simp_all add: brighter_def mergeEffect_def noOverrides_def defaultEffect_def spread_def
        getLUT_def compose_def idFn_def Let_def)

lemma brighter_pixel:
  "0 \<le> x \<Longrightarrow> x = of_int \<lfloor>x\<rfloor> \<Longrightarrow> nat \<lfloor>x\<rfloor> < 256 \<Longrightarrow>
   0 \<le> y \<Longrightarrow> y = of_int \<lfloor>y\<rfloor> \<Longrightarrow> nat \<lfloor>y\<rfloor> < 256 \<Longrightarrow>
   0 \<le> z \<Longrightarrow> z = of_int \<lfloor>z\<rfloor> \<Longrightarrow> nat \<lfloor>z\<rfloor> < 256 \<Longrightarrow>
   pixelValues (getLUT brighter) (sepia brighter) (saturation brighter) (Num x) (Num y) (Num z)
   = (Num (x + 128 / 5), Num (y + 128 / 5), Num (z + 128 / 5))"
  by (simp add: brighter_fields pixelValues_def lutOutputs_def jsIndex_table brightnessFn_def)

text \<open>
  Claim C6. For every configuration, every conversion of the buffer and every buffer, the
  pass keeps the length of the buffer and leaves each alpha sample (the positions 3, 7,
  11, ...) equal to its original value.
\<close>

theorem pixelPass_alpha_untouched:
  assumes "j < length idat" and "j mod 4 = 3"
  shows "length (pixelPass conv effect idat) = length idat
       \<and> pixelPass conv effect idat ! j = idat ! j"
  using assms by (simp add: pixelPass_def pixelLoop_alpha length_pixelLoop length_loopBody)

theorem pixelPass_alpha_untouched_witness:
  "length (pixelPass keepNumber brighter [10, 20, 30, 40, 50, 60, 70, 80]) = 8
   \<and> pixelPass keepNumber brighter [10, 20, 30, 40, 50, 60, 70, 80] ! 7 = 80"
  using pixelPass_alpha_untouched [of 7 "[10, 20, 30, 40, 50, 60, 70, 80]" keepNumber brighter]
  by simp

text \<open>
  Claim C10. For a buffer of \<open>4 * n\<close> samples, shorter than \<open>2 ^ 31\<close>: the loop starts
  at \<^verbatim>\<open>i = id.length / 4\<close>, where \<^verbatim>\<open>i << 2\<close> is the length of the buffer, one past
  its last sample; the read there gives \<^verbatim>\<open>undefined\<close> and that first iteration leaves
  the buffer as it is; and after the whole pass every pixel \<open>p < n\<close> holds the converted
  values computed from its own original samples, with its alpha sample unchanged.
\<close>

theorem pixelPass_start_past_end:
  assumes "length idat = 4 * n" and "length idat < 2 ^ 31" and "p < n"
    and "pixelValues (getLUT effect) (sepia effect) (saturation effect)
           (Num (idat ! (4 * p))) (Num (idat ! (4 * p + 1))) (Num (idat ! (4 * p + 2))) = (r, g, b)"
  shows "shl2 (length idat div 4) = int (length idat)
       \<and> typedGet idat (shl2 (length idat div 4)) = Undefined
       \<and> loopBody conv (getLUT effect) (sepia effect) (saturation effect) (length idat div 4) idat = idat
       \<and> pixelPass conv effect idat ! (4 * p) = conv r
       \<and> pixelPass conv effect idat ! (4 * p + 1) = conv g
       \<and> pixelPass conv effect idat ! (4 * p + 2) = conv b
       \<and> pixelPass conv effect idat ! (4 * p + 3) = idat ! (4 * p + 3)"
proof -
  have n: "n < 2 ^ 29" and d: "length idat div 4 = n"
    using assms(1,2) by simp_all
  have s: "shl2 n = int (length idat)"
    using n assms(1) by (simp add: shl2_small)
  have u: "typedGet idat (int (length idat)) = Undefined"
    by (simp add: typedGet_def)
  have b: "loopBody conv (getLUT effect) (sepia effect) (saturation effect) n idat = idat"
    using assms(1) n by (rule loopBody_past_end)
  have in_range: "4 * p < length idat" "4 * p + 1 < length idat" "4 * p + 2 < length idat"
    "4 * p + 3 < length idat"
    using assms(1,3) by simp_all
  have reads: "typedGet idat (int (4 * p)) = Num (idat ! (4 * p))"
    "typedGet idat (int (4 * p + 1)) = Num (idat ! (4 * p + 1))"
    "typedGet idat (int (4 * p + 2)) = Num (idat ! (4 * p + 2))"
    using in_range by (simp_all only: typedGet_in_range)
  have q: "(4 * p) div 4 = p" "(4 * p + 1) div 4 = p" "(4 * p + 2) div 4 = p" "(4 * p + 3) div 4 = p"
    by simp_all
  have m: "(4 * p) mod 4 = 0" "(4 * p + 1) mod 4 = 1" "(4 * p + 2) mod 4 = 2" "(4 * p + 3) mod 4 = 3"
    by presburger+
  have v0: "passValue conv (getLUT effect) (sepia effect) (saturation effect) idat (4 * p) = conv r"
    by (simp only: passValue_def Let_def q m reads assms(4) prod.case) simp
  have v1: "passValue conv (getLUT effect) (sepia effect) (saturation effect) idat (4 * p + 1) = conv g"
    by (simp only: passValue_def Let_def q m reads assms(4) prod.case) simp
  have v2: "passValue conv (getLUT effect) (sepia effect) (saturation effect) idat (4 * p + 2) = conv b"
    by (simp only: passValue_def Let_def q m reads assms(4) prod.case) simp
  have v3: "passValue conv (getLUT effect) (sepia effect) (saturation effect) idat (4 * p + 3)
            = idat ! (4 * p + 3)"
    by (simp only: passValue_def Let_def q m reads assms(4) prod.case) simp
  have e0: "pixelPass conv effect idat ! (4 * p) = conv r"
    using in_range(1) assms(2) by (simp only: nth_pixelPass v0)
  have e1: "pixelPass conv effect idat ! (4 * p + 1) = conv g"
    using in_range(2) assms(2) by (simp only: nth_pixelPass v1)
  have e2: "pixelPass conv effect idat ! (4 * p + 2) = conv b"
    using in_range(3) assms(2) by (simp only: nth_pixelPass v2)
  have e3: "pixelPass conv effect idat ! (4 * p + 3) = idat ! (4 * p + 3)"
    using in_range(4) assms(2) by (simp only: nth_pixelPass v3)
  have t: "typedGet idat (shl2 n) = Undefined"
    by (simp only: s u)
  show ?thesis
    unfolding d by (intro conjI s t b e0 e1 e2 e3)
qed

theorem pixelPass_start_past_end_witness:
  "shl2 (length [10, 20, 30, 40 :: real] div 4) = 4
   \<and> loopBody keepNumber (getLUT brighter) (sepia brighter) (saturation brighter) 1 [10, 20, 30, 40]
       = [10, 20, 30, 40]
   \<and> pixelPass keepNumber brighter [10, 20, 30, 40] ! 0 = 178 / 5
   \<and> pixelPass keepNumber brighter [10, 20, 30, 40] ! 1 = 228 / 5
   \<and> pixelPass keepNumber brighter [10, 20, 30, 40] ! 2 = 278 / 5
   \<and> pixelPass keepNumber brighter [10, 20, 30, 40] ! 3 = 40"
proof -
  have len: "length [10, 20, 30, 40 :: real] = 4 * 1" "length [10, 20, 30, 40 :: real] < 2 ^ 31"
    and p: "(0::nat) < 1"
    by simp_all
  have pv: "pixelValues (getLUT brighter) (sepia brighter) (saturation brighter)
      (Num ([10, 20, 30, 40] ! (4 * 0))) (Num ([10, 20, 30, 40] ! (4 * 0 + 1)))
      (Num ([10, 20, 30, 40] ! (4 * 0 + 2))) = (Num (178 / 5), Num (228 / 5), Num (278 / 5))"
    by (simp add: brighter_pixel)
  from pixelPass_start_past_end [OF len p pv, of keepNumber] show ?thesis
    by (simp add: keepNumber_def numeral_2_eq_2)
qed

lemma gray_pass:
  "pixelPass conv brighter
     [128, 128, 128, 255, 128, 128, 128, 255, 128, 128, 128, 255, 128, 128, 128, 255]
   = [conv (Num (768 / 5)), conv (Num (768 / 5)), conv (Num (768 / 5)), 255,
      conv (Num (768 / 5)), conv (Num (768 / 5)), conv (Num (768 / 5)), 255,
      conv (Num (768 / 5)), conv (Num (768 / 5)), conv (Num (768 / 5)), 255,
      conv (Num (768 / 5)), conv (Num (768 / 5)), conv (Num (768 / 5)), 255]"
proof -
  let ?body = "loopBody conv (getLUT brighter) (sepia brighter) (saturation brighter)"
  let ?c = "conv (Num (768 / 5))"
  let ?b4 = "[128, 128, 128, 255, 128, 128, 128, 255, 128, 128, 128, 255, 128, 128, 128, 255 :: real]"
  let ?b3 = "[128, 128, 128, 255, 128, 128, 128, 255, 128, 128, 128, 255, ?c, ?c, ?c, 255]"
  let ?b2 = "[128, 128, 128, 255, 128, 128, 128, 255, ?c, ?c, ?c, 255, ?c, ?c, ?c, 255]"
  let ?b1 = "[128, 128, 128, 255, ?c, ?c, ?c, 255, ?c, ?c, ?c, 255, ?c, ?c, ?c, 255]"
  let ?b0 = "[?c, ?c, ?c, 255, ?c, ?c, ?c, 255, ?c, ?c, ?c, 255, ?c, ?c, ?c, 255]"
  have pv: "pixelValues (getLUT brighter) (sepia brighter) (saturation brighter)
      (Num 128) (Num 128) (Num 128) = (Num (768 / 5), Num (768 / 5), Num (768 / 5))"
    by (simp add: brighter_pixel)
  have s4: "?body 4 ?b4 = ?b4"
    by (rule loopBody_past_end [where n = 4]) simp_all
  have s3: "?body 3 ?b4 = ?b3"
    by (subst loopBody_whole_pixel
          [where r = "Num (768 / 5)" and g = "Num (768 / 5)" and b = "Num (768 / 5)"])
      (simp_all add: pv)
  have s2: "?body 2 ?b3 = ?b2"
    by (subst loopBody_whole_pixel
          [where r = "Num (768 / 5)" and g = "Num (768 / 5)" and b = "Num (768 / 5)"])
      (simp_all add: pv)
  have s1: "?body 1 ?b2 = ?b1"
    by (subst loopBody_whole_pixel
          [where r = "Num (768 / 5)" and g = "Num (768 / 5)" and b = "Num (768 / 5)"])
      (simp_all add: pv)
  have s0: "?body 0 ?b1 = ?b0"
    by (subst loopBody_whole_pixel
          [where r = "Num (768 / 5)" and g = "Num (768 / 5)" and b = "Num (768 / 5)"])
      (simp_all add: pv)
  have "length ?b4 div 4 = 4"
    by simp
  then show ?thesis
    by (simp only: pixelPass_def pixelLoop_4 s4 s3 s2 s1 s0)
qed

lemma brighter_overlays:
  "vignette brighter = 0" "lighten brighter = 0" "viewfinder brighter = None"
  by (simp_all add: brighter_def mergeEffect_def noOverrides_def defaultEffect_def spread_def)

text \<open>
  Claim C3. On the 2-by-2 image whose four pixels are (128, 128, 128, 255), with the
  default effect except brightness 0.1, each iteration computes 153.6 for red, green and
  blue, and the pass hands exactly these values to the buffer: every colour sample becomes
  the buffer's conversion of 153.6 and every alpha sample stays 255. In a buffer that
  keeps numbers as they are, the colour samples are 153.6. \<^verbatim>\<open>applyEffect\<close> on a
  canvas with this bitmap resolves with that canvas and the transformed bitmap.
\<close>

theorem gray_example:
  "pixelValues (getLUT brighter) (sepia brighter) (saturation brighter) (Num 128) (Num 128) (Num 128)
   = (Num 153.6, Num 153.6, Num 153.6)
   \<and> pixelPass conv brighter
       [128, 128, 128, 255, 128, 128, 128, 255, 128, 128, 128, 255, 128, 128, 128, 255]
     = [conv (Num 153.6), conv (Num 153.6), conv (Num 153.6), 255,
        conv (Num 153.6), conv (Num 153.6), conv (Num 153.6), 255,
        conv (Num 153.6), conv (Num 153.6), conv (Num 153.6), 255,
        conv (Num 153.6), conv (Num 153.6), conv (Num 153.6), 255]
   \<and> pixelPass keepNumber brighter
       [128, 128, 128, 255, 128, 128, 128, 255, 128, 128, 128, 255, 128, 128, 128, 255]
     = [153.6, 153.6, 153.6, 255, 153.6, 153.6, 153.6, 255,
        153.6, 153.6, 153.6, 255, 153.6, 153.6, 153.6, 255]
   \<and> applyEffect P cache
       (CanvasElement \<lparr> width = 2, height = 2,
          bitmap = [128, 128, 128, 255, 128, 128, 128, 255, 128, 128, 128, 255, 128, 128, 128, 255],
          context2d = True \<rparr>)
       (noOverrides\<lparr>p_brightness := Some 0.1\<rparr>)
     = (Resolved \<lparr> width = 2, height = 2,
          bitmap = [store P (Num 153.6), store P (Num 153.6), store P (Num 153.6), 255,
                    store P (Num 153.6), store P (Num 153.6), store P (Num 153.6), 255,
                    store P (Num 153.6), store P (Num 153.6), store P (Num 153.6), 255,
                    store P (Num 153.6), store P (Num 153.6), store P (Num 153.6), 255],
          context2d = True \<rparr>, cache)"
proof -
  have "applyEffect P cache
       (CanvasElement \<lparr> width = 2, height = 2,
          bitmap = [128, 128, 128, 255, 128, 128, 128, 255, 128, 128, 128, 255, 128, 128, 128, 255],
          context2d = True \<rparr>)
       (noOverrides\<lparr>p_brightness := Some 0.1\<rparr>)
     = (Resolved \<lparr> width = 2, height = 2,
          bitmap = pixelPass (store P) brighter
            [128, 128, 128, 255, 128, 128, 128, 255, 128, 128, 128, 255, 128, 128, 128, 255],
          context2d = True \<rparr>, cache)"
    by (simp add: applyEffect_def getCanvasAndCtx_def brighter_def [symmetric] brighter_overlays)
  then show ?thesis
    by (simp add: gray_pass brighter_pixel keepNumber_def)
qed

section \<open>Properties of the sepia matrix and the saturation blend\<close>

lemma overdriven_fields:
  "sepia overdriven = False" "saturation overdriven = 0"
  "getLUT overdriven = [map (contrastFn (259 / 256)) id_arr, map (contrastFn (259 / 256)) id_arr,
                      map (contrastFn (259 / 256)) id_arr]"
  by (simp_all add: overdriven_def mergeEffect_def noOverrides_def defaultEffect_def spread_def
        getLUT_def compose_def idFn_def Let_def)

lemma sepiaOnly_fields:
  "sepia sepiaOnly = True" "saturation sepiaOnly = 1"
  "getLUT sepiaOnly = [id_arr, id_arr, id_arr]"
  by (simp_all add: sepiaOnly_def mergeEffect_def noOverrides_def defaultEffect_def spread_def
        getLUT_plain)

lemma jsIndex_id_arr:
  "jsIndex id_arr (Num x) =
     (if 0 \<le> x \<and> x = of_int \<lfloor>x\<rfloor> \<and> nat \<lfloor>x\<rfloor> < 256 then Num x else Undefined)"
  using jsIndex_table [of "\<lambda>v. v" x] by simp

lemma overdriven_lut:
  "lutOutputs (getLUT overdriven) (Num 200) (Num 200) (Num 200) = (PInf, PInf, PInf)"
  by (simp add: overdriven_fields lutOutputs_def jsIndex_table contrastFn_def jsub_def infOfSign_def)

lemma sepia_finite:
  "sepiaMatrix (Num r) (Num g) (Num b) =
     (Num (0.393 * r + 0.769 * g + 0.189 * b),
      Num (0.349 * r + 0.686 * g + 0.168 * b),
      Num (0.272 * r + 0.534 * g + 0.131 * b))"
  by (simp add: sepiaMatrix_def Let_def algebra_simps)

lemma blend_finite:
  "saturationBlend s (Num r) (Num g) (Num b) =
     (Num (r + ((r + g + b) / 3 - r) * (1 - s)),
      Num (g + ((r + g + b) / 3 - g) * (1 - s)),
      Num (b + ((r + g + b) / 3 - b) * (1 - s)))"
  by (simp add: saturationBlend_def Let_def jsub_def)

lemma blend_sum:
  assumes "jadd (jadd r g) b \<noteq> PInf" and "jadd (jadd r g) b \<noteq> NInf"
    and "saturationBlend s r g b = (r', g', b')"
  shows "jadd (jadd r' g') b' = jadd (jadd r g) b"
proof -
  have "(x + ((x + y + z) / 3 - x) * (1 - s)) + (y + ((x + y + z) / 3 - y) * (1 - s))
       + (z + ((x + y + z) / 3 - z) * (1 - s)) = x + y + z" for x y z :: real
    by (simp add: field_simps)
  then show ?thesis
    using assms
    by (cases r; cases g; cases b)
      (auto simp: saturationBlend_def Let_def jsub_def infOfSign_def)
qed

lemma blend_average:
  assumes "jdiv (jadd (jadd r g) b) (Num 3) \<noteq> PInf" and "jdiv (jadd (jadd r g) b) (Num 3) \<noteq> NInf"
  shows "saturationBlend 0 r g b =
     (jdiv (jadd (jadd r g) b) (Num 3), jdiv (jadd (jadd r g) b) (Num 3),
      jdiv (jadd (jadd r g) b) (Num 3))"
  using assms
  by (cases r; cases g; cases b)
    (auto simp: saturationBlend_def Let_def jsub_def infOfSign_def)


lemma sepia_literals:
  "fl64 0.393 = Num (1769914653556605 / 4503599627370496)"
  "fl64 0.769 = Num (6926536226895823 / 9007199254740992)"
  "fl64 0.189 = Num (3404721318292095 / 18014398509481984)"
  "fl64 0.349 = Num (1571756269952303 / 4503599627370496)"
  "fl64 0.686 = Num (6178938688752321 / 9007199254740992)"
  "fl64 0.168 = Num (6052837899185947 / 36028797018963968)"
  "fl64 0.272 = Num (1224979098644775 / 4503599627370496)"
  "fl64 0.534 = Num (2404922201015845 / 4503599627370496)"
  "fl64 0.131 = Num (589971551185535 / 4503599627370496)"
  by (simp_all add: fl64_eval)

lemma sepia_products:
  "jmul64 (Num 255) (Num (1769914653556605 / 4503599627370496)) = Num (3526001848882299 / 35184372088832)"
  "jmul64 (Num 255) (Num (6926536226895823 / 9007199254740992)) = Num (6899479444759511 / 35184372088832)"
  "jmul64 (Num 255) (Num (3404721318292095 / 18014398509481984)) = Num (6782843251285033 / 140737488355328)"
  "jmul64 (Num 255) (Num (1571756269952303 / 4503599627370496)) = Num (6262466388091207 / 70368744177664)"
  "jmul64 (Num 255) (Num (6178938688752321 / 9007199254740992)) = Num (3077401104749691 / 17592186044416)"
  "jmul64 (Num 255) (Num (6052837899185947 / 36028797018963968)) = Num (1507298500285563 / 35184372088832)"
  "jmul64 (Num 255) (Num (1224979098644775 / 4503599627370496)) = Num (4880776096162775 / 70368744177664)"
  "jmul64 (Num 255) (Num (2404922201015845 / 4503599627370496)) = Num (2395527973668127 / 17592186044416)"
  "jmul64 (Num 255) (Num (589971551185535 / 4503599627370496)) = Num (1175333949627433 / 35184372088832)"
  by (simp_all add: jmul64_def fl64_eval)

lemma sepia_sums:
  "jadd64 (Num (3526001848882299 / 35184372088832)) (Num (6899479444759511 / 35184372088832)) = Num (5212740646820905 / 17592186044416)"
  "jadd64 (Num (5212740646820905 / 17592186044416)) (Num (6782843251285033 / 140737488355328)) = Num (3030298026615767 / 8796093022208)"
  "jadd64 (Num (6262466388091207 / 70368744177664)) (Num (3077401104749691 / 17592186044416)) = Num (4643017701772493 / 17592186044416)"
  "jadd64 (Num (4643017701772493 / 17592186044416)) (Num (1507298500285563 / 35184372088832)) = Num (2698333475957637 / 8796093022208)"
  "jadd64 (Num (4880776096162775 / 70368744177664)) (Num (2395527973668127 / 17592186044416)) = Num (3615721997708821 / 17592186044416)"
  "jadd64 (Num (3615721997708821 / 17592186044416)) (Num (1175333949627433 / 35184372088832)) = Num (8406777945045075 / 35184372088832)"
  by (simp_all add: jadd64_def fl64_eval)

lemma sepiaMatrix64_white:
  "sepiaMatrix64 (Num 255) (Num 255) (Num 255) =
     (Num (3030298026615767 / 8796093022208), Num (2698333475957637 / 8796093022208),
      Num (8406777945045075 / 35184372088832))"
  by (simp only: sepiaMatrix64_def Let_def sepia_literals sepia_products sepia_sums)

lemma white_blue_nearest:
  "fl64 (255 * 0.937) = Num (4203388972522537 / 17592186044416)"
  "fl64 0.937 = Num (4219872850846155 / 4503599627370496)"
  "jmul64 (Num 255) (Num (4219872850846155 / 4503599627370496)) = Num (4203388972522537 / 17592186044416)"
  by (simp_all add: jmul64_def fl64_eval)

lemma blend64_thirds:
  "saturationBlend64 0 (Num 0) (Num 0) (Num 1) =
     (Num (6004799503160661 / 18014398509481984), Num (6004799503160661 / 18014398509481984),
      Num (1501199875790165 / 4503599627370496))"
proof -
  have z: "fl64 0 = Num 0" and o: "fl64 1 = Num 1"
    using fl64_of_int [of 0] fl64_of_int [of 1] by simp_all
  have avg: "jdiv64 (jadd64 (jadd64 (Num 0) (Num 0)) (Num 1)) (Num 3)
             = Num (6004799503160661 / 18014398509481984)"
    by (simp add: jadd64_def z o) (simp add: jdiv64_def fl64_eval)
  have one: "jsub64 (Num 1) (Num 0) = Num 1"
    by (simp add: jsub64_def jsub_def o)
  have a0: "jsub64 (Num (6004799503160661 / 18014398509481984)) (Num 0)
            = Num (6004799503160661 / 18014398509481984)"
    by (simp add: jsub64_def jsub_def fl64_eval)
  have a1: "jmul64 (Num (6004799503160661 / 18014398509481984)) (Num 1)
            = Num (6004799503160661 / 18014398509481984)"
    by (simp add: jmul64_def fl64_eval)
  have a2: "jadd64 (Num 0) (Num (6004799503160661 / 18014398509481984))
            = Num (6004799503160661 / 18014398509481984)"
    by (simp add: jadd64_def fl64_eval)
  have b0: "jsub64 (Num (6004799503160661 / 18014398509481984)) (Num 1)
            = Num (- 3002399751580331 / 4503599627370496)"
    by (simp add: jsub64_def jsub_def fl64_eval)
  have b1: "jmul64 (Num (- 3002399751580331 / 4503599627370496)) (Num 1)
            = Num (- 3002399751580331 / 4503599627370496)"
    by (simp add: jmul64_def fl64_eval)
  have b2: "jadd64 (Num 1) (Num (- 3002399751580331 / 4503599627370496))
            = Num (1501199875790165 / 4503599627370496)"
    by (simp add: jadd64_def fl64_eval)
  show ?thesis
    by (simp only: saturationBlend64_def Let_def avg one a0 a1 a2 b0 b1 b2)
qed


lemma brighterSepia_fields:
  "sepia brighterSepia = True" "saturation brighterSepia = 1"
  "getLUT brighterSepia = [map (brightnessFn (1 / 10)) id_arr, map (brightnessFn (1 / 10)) id_arr,
                           map (brightnessFn (1 / 10)) id_arr]"
  by (simp_all add: brighterSepia_def mergeEffect_def noOverrides_def defaultEffect_def spread_def
        getLUT_def compose_def idFn_def Let_def)

lemma brighterSepia_lookup:
  "jsIndex (getLUT brighterSepia ! 0) (Num 128) = Num 153.6"
  "jsIndex (getLUT brighterSepia ! 1) (Num 128) = Num 153.6"
  "jsIndex (getLUT brighterSepia ! 2) (Num 128) = Num 153.6"
  by (simp_all add: brighterSepia_fields jsIndex_table brightnessFn_def)

text \<open>
  Claim C5, as stated, fails in binary64 on its own example. For the LUT output
  (255, 255, 255) the code computes \<^verbatim>\<open>255 * 0.272 + 255 * 0.534 + 255 * 0.131\<close> with
  five roundings and gets 238.93500000000003 for blue, which is neither the number
  \<open>255 * 0.937\<close> nor the binary64 value nearest to it (238.935, also the value of
  \<^verbatim>\<open>255 * 0.937\<close>), but the next one above.
\<close>

theorem sepia_white_counterexample:
  "sepiaMatrix64 (Num 255) (Num 255) (Num 255) =
     (Num (3030298026615767 / 8796093022208), Num (2698333475957637 / 8796093022208),
      Num (8406777945045075 / 35184372088832))
   \<and> fl64 (255 * 0.937) = Num (4203388972522537 / 17592186044416)
   \<and> jmul64 (Num 255) (fl64 0.937) = Num (4203388972522537 / 17592186044416)
   \<and> (8406777945045075 / 35184372088832 :: real) \<noteq> 4203388972522537 / 17592186044416
   \<and> (8406777945045075 / 35184372088832 :: real) \<noteq> 255 * 0.937"
proof (intro conjI)
  show "sepiaMatrix64 (Num 255) (Num 255) (Num 255) =
     (Num (3030298026615767 / 8796093022208), Num (2698333475957637 / 8796093022208),
      Num (8406777945045075 / 35184372088832))"
    by (rule sepiaMatrix64_white)
  show "fl64 (255 * 0.937) = Num (4203388972522537 / 17592186044416)"
    by (rule white_blue_nearest)
  show "jmul64 (Num 255) (fl64 0.937) = Num (4203388972522537 / 17592186044416)"
    by (simp only: white_blue_nearest)
qed simp_all

text \<open>
  Claim C5, amended. With sepia enabled the matrix is applied to the three table entries
  \<^verbatim>\<open>LUT[0][id[ri]]\<close>, \<^verbatim>\<open>LUT[1][id[gi]]\<close>, \<^verbatim>\<open>LUT[2][id[bi]]\<close> of the pixel,
  not to its samples, and its result goes on to the saturation step. In exact arithmetic,
  for finite entries \<open>r\<close>, \<open>g\<close>, \<open>b\<close> and saturation 1 or more, the output of the pixel is
  \<open>0.393 r + 0.769 g + 0.189 b\<close>, \<open>0.349 r + 0.686 g + 0.168 b\<close>,
  \<open>0.272 r + 0.534 g + 0.131 b\<close>, and for the entries (255, 255, 255) this is 255 times
  the row sums 1.351, 1.203 and 0.937. With every operation rounded to binary64 the three
  results for (255, 255, 255) are 344.505, 306.765 and 238.93500000000003, each less than
  \<open>2 ^ -44\<close> away from the exact one.
\<close>

theorem sepia_matrix_on_lut_outputs:
  "pixelValues LUT True sat x y z =
     (case sepiaMatrix (jsIndex (LUT ! 0) x) (jsIndex (LUT ! 1) y) (jsIndex (LUT ! 2) z) of
        (r', g', b') \<Rightarrow> if sat < 1 then saturationBlend sat r' g' b' else (r', g', b'))
   \<and> (jsIndex (LUT ! 0) x = Num r \<and> jsIndex (LUT ! 1) y = Num g \<and> jsIndex (LUT ! 2) z = Num b
        \<and> 1 \<le> sat \<longrightarrow>
      pixelValues LUT True sat x y z =
        (Num (0.393 * r + 0.769 * g + 0.189 * b),
         Num (0.349 * r + 0.686 * g + 0.168 * b),
         Num (0.272 * r + 0.534 * g + 0.131 * b)))
   \<and> sepiaMatrix (Num 255) (Num 255) (Num 255)
       = (Num (255 * 1.351), Num (255 * 1.203), Num (255 * 0.937))
   \<and> sepiaMatrix64 (Num 255) (Num 255) (Num 255) =
       (Num (3030298026615767 / 8796093022208), Num (2698333475957637 / 8796093022208),
        Num (8406777945045075 / 35184372088832))
   \<and> \<bar>3030298026615767 / 8796093022208 - 255 * 1.351 :: real\<bar> < 1 / 2 ^ 44
   \<and> \<bar>2698333475957637 / 8796093022208 - 255 * 1.203 :: real\<bar> < 1 / 2 ^ 44
   \<and> \<bar>8406777945045075 / 35184372088832 - 255 * 0.937 :: real\<bar> < 1 / 2 ^ 44"
proof (intro conjI impI)
  show "pixelValues LUT True sat x y z =
     (case sepiaMatrix (jsIndex (LUT ! 0) x) (jsIndex (LUT ! 1) y) (jsIndex (LUT ! 2) z) of
        (r', g', b') \<Rightarrow> if sat < 1 then saturationBlend sat r' g' b' else (r', g', b'))"
    by (simp add: pixelValues_def lutOutputs_def Let_def split: prod.splits)
next
  assume "jsIndex (LUT ! 0) x = Num r \<and> jsIndex (LUT ! 1) y = Num g \<and> jsIndex (LUT ! 2) z = Num b
        \<and> 1 \<le> sat"
  then show "pixelValues LUT True sat x y z =
        (Num (0.393 * r + 0.769 * g + 0.189 * b),
         Num (0.349 * r + 0.686 * g + 0.168 * b),
         Num (0.272 * r + 0.534 * g + 0.131 * b))"
    by (simp add: pixelValues_def lutOutputs_def sepia_finite)
next
  show "sepiaMatrix (Num 255) (Num 255) (Num 255)
       = (Num (255 * 1.351), Num (255 * 1.203), Num (255 * 0.937))"
    by (simp add: sepia_finite)
next
  show "sepiaMatrix64 (Num 255) (Num 255) (Num 255) =
       (Num (3030298026615767 / 8796093022208), Num (2698333475957637 / 8796093022208),
        Num (8406777945045075 / 35184372088832))"
    by (rule sepiaMatrix64_white)
qed simp_all

theorem sepia_matrix_on_lut_outputs_witness:
  "jsIndex (getLUT brighterSepia ! 0) (Num 128) = Num 153.6
   \<and> pixelValues (getLUT brighterSepia) (sepia brighterSepia) (saturation brighterSepia)
        (Num 128) (Num 128) (Num 128)
       = (Num (153.6 * 1.351), Num (153.6 * 1.203), Num (153.6 * 0.937))
   \<and> sepiaMatrix (Num 128) (Num 128) (Num 128)
       = (Num (128 * 1.351), Num (128 * 1.203), Num (128 * 0.937))"
proof -
  have l: "jsIndex (getLUT brighterSepia ! 0) (Num 128) = Num 153.6
      \<and> jsIndex (getLUT brighterSepia ! 1) (Num 128) = Num 153.6
      \<and> jsIndex (getLUT brighterSepia ! 2) (Num 128) = Num 153.6 \<and> (1::real) \<le> 1"
    by (intro conjI brighterSepia_lookup) simp
  from sepia_matrix_on_lut_outputs
    [of "getLUT brighterSepia" 1 "Num 128" "Num 128" "Num 128" "153.6" "153.6" "153.6"] l
  have "pixelValues (getLUT brighterSepia) True 1 (Num 128) (Num 128) (Num 128) =
        (Num (0.393 * 153.6 + 0.769 * 153.6 + 0.189 * 153.6),
         Num (0.349 * 153.6 + 0.686 * 153.6 + 0.168 * 153.6),
         Num (0.272 * 153.6 + 0.534 * 153.6 + 0.131 * 153.6))"
    by blast
  then show ?thesis
    using l by (simp add: brighterSepia_fields(1,2) sepia_finite)
qed


text \<open>
  Claim C9, as stated, fails when a channel is infinite. With contrast \<open>259 / 256\<close> the
  LUT maps 200 to \<open>+Infinity\<close>; the blend of three infinite channels with saturation 0
  gives NaN three times (\<open>Infinity - Infinity\<close>), and the sum changes from
  \<open>+Infinity\<close> to NaN.
\<close>

theorem saturation_sum_counterexample:
  "lutOutputs (getLUT overdriven) (Num 200) (Num 200) (Num 200) = (PInf, PInf, PInf)
   \<and> saturation overdriven < 1
   \<and> saturationBlend (saturation overdriven) PInf PInf PInf = (NaN, NaN, NaN)
   \<and> jadd (jadd NaN NaN) NaN \<noteq> jadd (jadd PInf PInf) PInf"
  by (simp add: overdriven_lut overdriven_fields(1,2) saturationBlend_def jsub_def infOfSign_def
        Let_def)

text \<open>
  Claim C9, amended. For every saturation value and every channel triple whose sum is
  not infinite, the sum of the three blended channels is the sum of the three inputs. In
  particular, three finite channels give three finite channels with the same sum.
\<close>

theorem saturation_preserves_sum:
  "(jadd (jadd r g) b \<noteq> PInf \<and> jadd (jadd r g) b \<noteq> NInf
      \<and> saturationBlend s r g b = (r', g', b')
    \<longrightarrow> jadd (jadd r' g') b' = jadd (jadd r g) b)
   \<and> (\<exists>x' y' z'. saturationBlend s (Num x) (Num y) (Num z) = (Num x', Num y', Num z')
         \<and> x' + y' + z' = x + y + z)"
proof
  show "jadd (jadd r g) b \<noteq> PInf \<and> jadd (jadd r g) b \<noteq> NInf
      \<and> saturationBlend s r g b = (r', g', b')
    \<longrightarrow> jadd (jadd r' g') b' = jadd (jadd r g) b"
    using blend_sum by blast
  have "(x + ((x + y + z) / 3 - x) * (1 - s)) + (y + ((x + y + z) / 3 - y) * (1 - s))
       + (z + ((x + y + z) / 3 - z) * (1 - s)) = x + y + z"
    by (simp add: field_simps)
  then show "\<exists>x' y' z'. saturationBlend s (Num x) (Num y) (Num z) = (Num x', Num y', Num z')
         \<and> x' + y' + z' = x + y + z"
    unfolding blend_finite by blast
qed

theorem saturation_preserves_sum_witness:
  "saturationBlend (1 / 2) (Num 10) (Num 20) (Num 60) = (Num 20, Num 25, Num 45)
   \<and> jadd (jadd (Num 20) (Num 25)) (Num 45) = jadd (jadd (Num 10) (Num 20)) (Num 60)"
  using saturation_preserves_sum
    [of "Num 10" "Num 20" "Num 60" "1 / 2" "Num 20" "Num 25" "Num 45" 10 20 60]
  by (simp add: blend_finite)

text \<open>
  Claim C4, as stated, fails in two ways. With sepia enabled and saturation 1 the output of
  the white pixel is the sepia transform of the LUT outputs, not the LUT outputs. With
  saturation 0 and three LUT outputs \<open>+Infinity\<close> the average is \<open>+Infinity\<close> and the
  three output channels are NaN.
\<close>

theorem saturation_endpoints_counterexample:
  "pixelValues (getLUT sepiaOnly) (sepia sepiaOnly) (saturation sepiaOnly) (Num 255) (Num 255) (Num 255)
     \<noteq> lutOutputs (getLUT sepiaOnly) (Num 255) (Num 255) (Num 255)
   \<and> saturation sepiaOnly = 1
   \<and> lutOutputs (getLUT overdriven) (Num 200) (Num 200) (Num 200) = (PInf, PInf, PInf)
   \<and> saturation overdriven = 0
   \<and> jdiv (jadd (jadd PInf PInf) PInf) (Num 3) = PInf
   \<and> pixelValues (getLUT overdriven) (sepia overdriven) (saturation overdriven)
        (Num 200) (Num 200) (Num 200) = (NaN, NaN, NaN)"
proof -
  have a: "lutOutputs (getLUT sepiaOnly) (Num 255) (Num 255) (Num 255) = (Num 255, Num 255, Num 255)"
    by (simp add: sepiaOnly_fields lutOutputs_def jsIndex_id_arr)
  have b: "pixelValues (getLUT sepiaOnly) (sepia sepiaOnly) (saturation sepiaOnly)
      (Num 255) (Num 255) (Num 255) = (Num (68901 / 200), Num (61353 / 200), Num (47787 / 200))"
    by (simp add: pixelValues_def a sepiaOnly_fields(1,2) sepia_finite)
  have c: "pixelValues (getLUT overdriven) (sepia overdriven) (saturation overdriven)
        (Num 200) (Num 200) (Num 200) = (NaN, NaN, NaN)"
    by (simp add: pixelValues_def overdriven_lut overdriven_fields(1,2) saturationBlend_def
          jsub_def)
  show ?thesis
    by (simp only: a b c overdriven_lut) (simp add: overdriven_fields(2) sepiaOnly_fields(2))
qed


text \<open>
  Claim C4, amended. The channels that enter the saturation step are the LUT outputs, or
  their sepia transform when sepia is enabled. With saturation 1 or more the output of the
  pixel is exactly these channels. With saturation 0, unless their average is infinite,
  each of the three output channels is their arithmetic average in exact arithmetic; the
  rounding of the code is set aside here (for the channels (0, 0, 1) it gives
  0.33333333333333326 for blue against the average 0.3333333333333333, lemma
  \<open>blend64_thirds\<close>).
\<close>

theorem saturation_endpoints:
  "(1 \<le> sat \<longrightarrow>
      pixelValues LUT sep sat x y z =
        (if sep then (case lutOutputs LUT x y z of (r, g, b) \<Rightarrow> sepiaMatrix r g b)
         else lutOutputs LUT x y z))
   \<and> ((if sep then (case lutOutputs LUT x y z of (r, g, b) \<Rightarrow> sepiaMatrix r g b)
        else lutOutputs LUT x y z) = (r, g, b)
       \<and> jdiv (jadd (jadd r g) b) (Num 3) \<noteq> PInf \<and> jdiv (jadd (jadd r g) b) (Num 3) \<noteq> NInf
      \<longrightarrow>
      pixelValues LUT sep 0 x y z =
        (jdiv (jadd (jadd r g) b) (Num 3), jdiv (jadd (jadd r g) b) (Num 3),
         jdiv (jadd (jadd r g) b) (Num 3)))"
proof (intro conjI impI)
  assume "1 \<le> sat"
  then show "pixelValues LUT sep sat x y z =
        (if sep then (case lutOutputs LUT x y z of (r, g, b) \<Rightarrow> sepiaMatrix r g b)
         else lutOutputs LUT x y z)"
    by (simp add: pixelValues_def Let_def split: prod.splits)
next
  assume a: "(if sep then (case lutOutputs LUT x y z of (r, g, b) \<Rightarrow> sepiaMatrix r g b)
        else lutOutputs LUT x y z) = (r, g, b)
       \<and> jdiv (jadd (jadd r g) b) (Num 3) \<noteq> PInf \<and> jdiv (jadd (jadd r g) b) (Num 3) \<noteq> NInf"
  then have "pixelValues LUT sep 0 x y z = saturationBlend 0 r g b"
    by (auto simp: pixelValues_def Let_def split: prod.splits if_splits)
  then show "pixelValues LUT sep 0 x y z =
        (jdiv (jadd (jadd r g) b) (Num 3), jdiv (jadd (jadd r g) b) (Num 3),
         jdiv (jadd (jadd r g) b) (Num 3))"
    using a by (simp add: blend_average)
qed

theorem saturation_endpoints_witness:
  "pixelValues (getLUT brighter) False 1 (Num 10) (Num 20) (Num 30)
     = lutOutputs (getLUT brighter) (Num 10) (Num 20) (Num 30)
   \<and> lutOutputs (getLUT brighter) (Num 10) (Num 20) (Num 30)
     = (Num (178 / 5), Num (228 / 5), Num (278 / 5))
   \<and> pixelValues (getLUT brighter) False 0 (Num 10) (Num 20) (Num 30)
     = (Num (228 / 5), Num (228 / 5), Num (228 / 5))"
proof -
  have l: "lutOutputs (getLUT brighter) (Num 10) (Num 20) (Num 30)
     = (Num (178 / 5), Num (228 / 5), Num (278 / 5))"
    by (simp add: brighter_fields lutOutputs_def jsIndex_table brightnessFn_def)
  from saturation_endpoints [of 1 "getLUT brighter" False "Num 10" "Num 20" "Num 30"
      "Num (178 / 5)" "Num (228 / 5)" "Num (278 / 5)"] l
  show ?thesis
    by simp
qed

section \<open>Properties of the entry point\<close>

text \<open>
  Claim C8. For a source that is neither an image element nor a canvas, whatever the
  platform, the cache and the configuration, the promise is rejected with the
  unsupported-source error and the cache is as before: no surface was obtained and no
  pixel was read or written. The error is raised for no other source.
\<close>

theorem applyEffect_unsupported_source:
  "applyEffect P cache OtherValue partialEffect = (Rejected UnsupportedSource, cache)
   \<and> (getCanvasAndCtx P el = Inl UnsupportedSource) = (el = OtherValue)
   \<and> (fst (applyEffect P cache el partialEffect) = Rejected UnsupportedSource) = (el = OtherValue)"
  by (cases el)
    (auto simp: applyEffect_def getCanvasAndCtx_def createCanvasAndCtxFromImage_def Let_def
      split: option.splits sum.splits prod.splits if_splits)

end
